theory Spec2Isabelle
  imports
    Main
    "HOL-Library.AList"
    "HOL-Library.Multiset"
    "HOL-Library.Char_ord"
    "HOL-Library.List_Lexorder"
begin

section \<open>Python values and the string operations the scripts use\<close>

text \<open>
  A record of the input is a Python dict from field names to scalar values. Strings are
  lists of 8-bit characters, read as the code points below 256. A float is carried
  as the text that \<^verbatim>\<open>str()\<close> gives for it, the only operation the scripts
  apply to one.
\<close>

datatype pyval = PNone | PBool bool | PInt int | PFloat string | PStr string

type_synonym pyrecord = "string \<rightharpoonup> pyval"

definition digit_char :: "nat \<Rightarrow> char" where
  "digit_char d = char_of (48 + d)"

function str_nat :: "nat \<Rightarrow> string" where
  "str_nat n = (if n < 10 then [digit_char n] else str_nat (n div 10) @ [digit_char (n mod 10)])"
  by pat_completeness auto
termination
  by (relation "measure (\<lambda>n. n)") auto

declare str_nat.simps [simp del]

definition str_int :: "int \<Rightarrow> string" where
  "str_int i = (if i < 0 then CHR ''-'' # str_nat (nat (- i)) else str_nat (nat i))"

text \<open>\<^verbatim>\<open>str(value)\<close>\<close>

fun py_str :: "pyval \<Rightarrow> string" where
  "py_str PNone = ''None''"
| "py_str (PBool b) = (if b then ''True'' else ''False'')"
| "py_str (PInt i) = str_int i"
| "py_str (PFloat s) = s"
| "py_str (PStr s) = s"

text \<open>
  \<^verbatim>\<open>str.lower()\<close> on the code points below 256: A to Z, and the accented capitals
  192 to 222 without the multiplication sign 215, move up by 32.
\<close>

definition is_upper :: "char \<Rightarrow> bool" where
  "is_upper c = (let n = (of_char c :: nat) in
     (65 \<le> n \<and> n \<le> 90) \<or> (192 \<le> n \<and> n \<le> 222 \<and> n \<noteq> 215))"

definition lower_char :: "char \<Rightarrow> char" where
  "lower_char c = (if is_upper c then char_of ((of_char c :: nat) + 32) else c)"

definition lower :: "string \<Rightarrow> string" where
  "lower s = map lower_char s"

text \<open>
  \<^verbatim>\<open>str.strip()\<close>: the whitespace of \<^verbatim>\<open>str.isspace\<close> below 256 is
  9 to 13, 28 to 32, 133 and 160.
\<close>

definition is_space :: "char \<Rightarrow> bool" where
  "is_space c = (let n = (of_char c :: nat) in
     (9 \<le> n \<and> n \<le> 13) \<or> (28 \<le> n \<and> n \<le> 32) \<or> n = 133 \<or> n = 160)"

definition strip :: "string \<Rightarrow> string" where
  "strip s = rev (dropWhile is_space (rev (dropWhile is_space s)))"

text \<open>\<^verbatim>\<open>sub in s\<close> on strings: \<open>sub\<close> occurs in \<open>s\<close> as a contiguous piece.\<close>

fun py_in :: "string \<Rightarrow> string \<Rightarrow> bool" where
  "py_in sub [] = (sub = [])"
| "py_in sub (c # cs) = (take (length sub) (c # cs) = sub \<or> py_in sub cs)"

text \<open>\<^verbatim>\<open>record.get(key, default)\<close>\<close>

definition dict_get :: "pyrecord \<Rightarrow> string \<Rightarrow> pyval \<Rightarrow> pyval" where
  "dict_get r k d = (case r k of Some v \<Rightarrow> v | None \<Rightarrow> d)"

section \<open>The aggregation pass of add\_region\_district\_data.py\<close>

text \<open>\<^verbatim>\<open>safe_str(value, default='Unknown')\<close>\<close>

definition safe_str :: "pyval \<Rightarrow> string \<Rightarrow> string" where
  "safe_str v dflt =
     (if v = PNone then dflt
      else (let s = strip (py_str v) in if s \<noteq> [] then s else dflt))"

text \<open>\<^verbatim>\<open>safe_lower(value)\<close>\<close>

definition safe_lower :: "pyval \<Rightarrow> string" where
  "safe_lower v = (if v = PNone then [] else lower (py_str v))"

record counter =
  count :: nat
  boys :: nat
  girls :: nat

text \<open>The default of the \<^verbatim>\<open>defaultdict\<close>s: \<^verbatim>\<open>{'count': 0, 'boys': 0, 'girls': 0}\<close>.\<close>

definition zero_counter :: counter where
  "zero_counter = \<lparr>count = 0, boys = 0, girls = 0\<rparr>"

text \<open>
  A Python dict keeps its keys in insertion order: an association list in which an
  assignment to a present key keeps its place and a new key goes to the end.
\<close>

type_synonym table = "(string \<times> counter) list"
type_synonym table2 = "(string \<times> table) list"
type_synonym relmap = "(string \<times> string set) list"

text \<open>
  The three statements on one counter:
  \<^verbatim>\<open>c['count'] += 1; if is_male: c['boys'] += 1; elif is_female: c['girls'] += 1\<close>
\<close>

definition tally :: "bool \<Rightarrow> bool \<Rightarrow> counter \<Rightarrow> counter" where
  "tally is_male is_female c =
     (let c1 = c\<lparr>count := count c + 1\<rparr> in
      if is_male then c1\<lparr>boys := boys c1 + 1\<rparr>
      else if is_female then c1\<lparr>girls := girls c1 + 1\<rparr>
      else c1)"

text \<open>\<^verbatim>\<open>d[key]\<close> on a \<^verbatim>\<open>defaultdict\<close>: the value, or the default when the key is new.\<close>

definition getitem :: "'v \<Rightarrow> (string \<times> 'v) list \<Rightarrow> string \<Rightarrow> 'v" where
  "getitem dflt t k = (case map_of t k of None \<Rightarrow> dflt | Some v \<Rightarrow> v)"

definition bump :: "string \<Rightarrow> bool \<Rightarrow> bool \<Rightarrow> table \<Rightarrow> table" where
  "bump k is_male is_female t =
     AList.update k (tally is_male is_female (getitem zero_counter t k)) t"

definition bump2 :: "string \<Rightarrow> string \<Rightarrow> bool \<Rightarrow> bool \<Rightarrow> table2 \<Rightarrow> table2" where
  "bump2 k y is_male is_female t =
     AList.update k (bump y is_male is_female (getitem [] t k)) t"

text \<open>\<^verbatim>\<open>regionDistrictMap[region].add(district)\<close>\<close>

definition add_rel :: "string \<Rightarrow> string \<Rightarrow> relmap \<Rightarrow> relmap" where
  "add_rel k d t = AList.update k (insert d (getitem {} t k)) t"

record agg =
  byRegion :: table
  byDistrict :: table
  regionYearData :: table2
  districtYearData :: table2
  regionDistrictMap :: relmap

definition init_agg :: agg where
  "init_agg = \<lparr>byRegion = [], byDistrict = [], regionYearData = [],
     districtYearData = [], regionDistrictMap = []\<rparr>"

definition region_of :: "pyrecord \<Rightarrow> string" where
  "region_of r =
     safe_str (dict_get r ''Region Name'' (dict_get r ''Region'' (PStr ''Unknown''))) ''Unknown''"

definition district_of :: "pyrecord \<Rightarrow> string" where
  "district_of r =
     safe_str (dict_get r ''District Name'' (dict_get r ''District'' (PStr ''Unknown''))) ''Unknown''"

definition year_of :: "pyrecord \<Rightarrow> string" where
  "year_of r = py_str (dict_get r ''Year'' (dict_get r ''Periodicity'' (PStr ''Unknown'')))"

definition gender_of :: "pyrecord \<Rightarrow> string" where
  "gender_of r = safe_lower (dict_get r ''Gender'' (dict_get r ''Gender_x'' (PStr '''')))"

definition is_male :: "pyrecord \<Rightarrow> bool" where
  "is_male r = (gender_of r \<in> set [''male'', ''m'', ''boy''])"

definition is_female :: "pyrecord \<Rightarrow> bool" where
  "is_female r = (gender_of r \<in> set [''female'', ''f'', ''girl''])"

text \<open>The body of the loop over \<^verbatim>\<open>all_records\<close>.\<close>

definition step :: "agg \<Rightarrow> pyrecord \<Rightarrow> agg" where
  "step s r =
     (let region = region_of r;
          district = district_of r;
          year = year_of r;
          m = is_male r;
          f = is_female r
      in \<lparr>byRegion = bump region m f (byRegion s),
          byDistrict = bump district m f (byDistrict s),
          regionYearData = bump2 region year m f (regionYearData s),
          districtYearData = bump2 district year m f (districtYearData s),
          regionDistrictMap =
            (if region \<noteq> ''Unknown'' \<and> district \<noteq> ''Unknown''
             then add_rel region district (regionDistrictMap s)
             else regionDistrictMap s)\<rparr>)"

definition aggregate :: "pyrecord list \<Rightarrow> agg" where
  "aggregate rs = foldl step init_agg rs"

subsection \<open>Writing the result into the existing document\<close>

datatype json = JNull | JBool bool | JInt int | JFloat string | JStr string
  | JArr "json list" | JObj "(string \<times> json) list"

definition counter_json :: "counter \<Rightarrow> json" where
  "counter_json c = JObj [(''count'', JInt (int (count c))), (''boys'', JInt (int (boys c))),
     (''girls'', JInt (int (girls c)))]"

text \<open>\<^verbatim>\<open>dict(byRegion)\<close>\<close>

definition table_json :: "table \<Rightarrow> json" where
  "table_json t = JObj (map (\<lambda>(k, c). (k, counter_json c)) t)"

text \<open>\<^verbatim>\<open>{k: dict(v) for k, v in regionYearData.items()}\<close>\<close>

definition table2_json :: "table2 \<Rightarrow> json" where
  "table2_json t = JObj (map (\<lambda>(k, v). (k, table_json v)) t)"

text \<open>\<^verbatim>\<open>{k: sorted(list(v)) for k, v in regionDistrictMap.items()}\<close>\<close>

definition sorted_districts :: "relmap \<Rightarrow> (string \<times> string list) list" where
  "sorted_districts t = map (\<lambda>(k, v). (k, sorted_list_of_set v)) t"

definition relmap_json :: "relmap \<Rightarrow> json" where
  "relmap_json t = JObj (map (\<lambda>(k, ds). (k, JArr (map JStr ds))) (sorted_districts t))"

text \<open>
  The file at the output path, as \<^verbatim>\<open>open\<close> and \<^verbatim>\<open>json.load\<close> find it: not there,
  there with a text that is no JSON, or holding a JSON value.
\<close>

datatype stored = Absent | Unparsable | Holds json

datatype error = FileNotFoundError | JSONDecodeError | TypeError

text \<open>The five assignments \<^verbatim>\<open>summary_data[...] = ...\<close>.\<close>

definition put_aggregations :: "agg \<Rightarrow> (string \<times> json) list \<Rightarrow> (string \<times> json) list" where
  "put_aggregations s d =
     (let d = AList.update ''byRegion'' (table_json (byRegion s)) d;
          d = AList.update ''byDistrict'' (table_json (byDistrict s)) d;
          d = AList.update ''regionYearData'' (table2_json (regionYearData s)) d;
          d = AList.update ''districtYearData'' (table2_json (districtYearData s)) d;
          d = AList.update ''regionDistrictMap'' (relmap_json (regionDistrictMap s)) d
      in d)"

text \<open>
  Load the existing summary, update it, save it. The result is the outcome and the file
  afterwards. An item assignment on a loaded value that is no dict raises TypeError.
\<close>

definition save_aggregations :: "agg \<Rightarrow> stored \<Rightarrow> (error + unit) \<times> stored" where
  "save_aggregations s file =
     (case file of
        Absent \<Rightarrow> (Inl FileNotFoundError, file)
      | Unparsable \<Rightarrow> (Inl JSONDecodeError, file)
      | Holds (JObj d) \<Rightarrow> (Inr (), Holds (JObj (put_aggregations s d)))
      | Holds _ \<Rightarrow> (Inl TypeError, file))"

section \<open>The risk scorers of analyze\_protection\_risk.py\<close>

text \<open>\<^verbatim>\<open>str(row.get(name, '')).lower()\<close>\<close>

definition field :: "pyrecord \<Rightarrow> string \<Rightarrow> string" where
  "field row name = lower (py_str (dict_get row name (PStr '''')))"

text \<open>\<^verbatim>\<open>score += p; factors.append(label)\<close> on the pair of score and factors.\<close>

definition hit :: "int \<Rightarrow> string \<Rightarrow> int \<times> string list \<Rightarrow> int \<times> string list" where
  "hit p label st = (fst st + p, snd st @ [label])"

text \<open>An \<^verbatim>\<open>if\<close> statement with no \<^verbatim>\<open>else\<close>: the body runs on the state, or nothing happens.\<close>

definition if_then :: "bool \<Rightarrow> ('s \<Rightarrow> 's) \<Rightarrow> 's \<Rightarrow> 's" where
  "if_then c body st = (if c then body st else st)"

definition calc_child_marriage_risk :: "pyrecord \<Rightarrow> int \<times> string list" where
  "calc_child_marriage_risk row =
     (let st = (0, []);
          enrollment = field row ''Enrollment status'';
          st = if_then (py_in ''drop out'' enrollment \<or> py_in ''never enrolled'' enrollment)
                (hit 20 ''Out of school'') st;
          single_parent = field row ''Whether the HH is headed by a single parent'';
          grandparent = field row ''Whether the HH is headed by grand parents'';
          child_headed = field row ''Whether headed by children (18 years and below)'';
          st = if_then (single_parent = ''yes'' \<or> grandparent = ''yes'' \<or> child_headed = ''yes'')
                (hit 15 ''Orphan/Single parent'') st;
          earner_ill = field row
            ''Whether the primary bread-earner of the HH is terminally/seriously ill'';
          st = if_then (earner_ill = ''yes'')
                (hit 5 ''Primary earner ill'') st;
          migrated = field row ''Child migrated in the last 3 months?'';
          hh_migrates = field row ''Whether Household migrates every year'';
          st = if_then (py_in ''yes'' migrated \<or> hh_migrates = ''yes'')
                (hit 5 ''Migration/Risk area'') st;
          missing = field row ''Is any child missing?'';
          st = if_then (missing = ''yes'')
                (hit 10 ''Missing children in HH'') st;
          ration = field row ''Type of Ration card'';
          st = if_then (py_in ''below poverty'' ration \<or> py_in ''no ration'' ration)
                (hit 10 ''BPL/Economic hardship'') st
      in (min (fst st) 100, snd st))"

definition calc_child_labour_risk :: "pyrecord \<Rightarrow> int \<times> string list" where
  "calc_child_labour_risk row =
     (let st = (0, []);
          enrollment = field row ''Enrollment status'';
          economic = field row
            ''Is the child involved in any Economic activities? (with or without wage/ monetary compensation for the child)'';
          st = if_then (py_in ''drop out'' enrollment \<or> py_in ''never enrolled'' enrollment)
                (hit 15 ''Out of school'') st;
          st = if_then (py_in ''yes'' economic)
                (\<lambda>st. let st = hit 15 ''Economic activity'' st in
                   if_then (py_in ''outside home alone'' economic)
                     (hit 10 ''Works outside alone'') st) st;
          bonded = field row ''Bonded labour involvement'';
          st = if_then (bonded = ''yes'')
                (hit 20 ''Bonded labor'') st;
          single_parent = field row ''Whether the HH is headed by a single parent'';
          grandparent = field row ''Whether the HH is headed by grand parents'';
          child_headed = field row ''Whether headed by children (18 years and below)'';
          st = if_then (single_parent = ''yes'' \<or> grandparent = ''yes'' \<or> child_headed = ''yes'')
                (hit 10 ''Orphan/Single parent'') st;
          ration = field row ''Type of Ration card'';
          earner_ill = field row
            ''Whether the primary bread-earner of the HH is terminally/seriously ill'';
          st = if_then (py_in ''below poverty'' ration \<or> py_in ''no ration'' ration \<or> earner_ill = ''yes'')
                (hit 10 ''Economic hardship'') st;
          migrated = field row ''Child migrated in the last 3 months?'';
          hh_migrates = field row ''Whether Household migrates every year'';
          st = if_then (py_in ''yes'' migrated \<or> hh_migrates = ''yes'')
                (hit 10 ''Migration/Risk area'') st;
          missing = field row ''Is any child missing?'';
          st = if_then (missing = ''yes'')
                (hit 10 ''Protection issues'') st
      in (min (fst st) 100, snd st))"

definition calc_child_trafficking_risk :: "pyrecord \<Rightarrow> int \<times> string list" where
  "calc_child_trafficking_risk row =
     (let st = (0, []);
          enrollment = field row ''Enrollment status'';
          economic = field row
            ''Is the child involved in any Economic activities? (with or without wage/ monetary compensation for the child)'';
          is_out_of_school = (py_in ''drop out'' enrollment \<or> py_in ''never enrolled'' enrollment);
          is_economically_active = py_in ''yes'' economic;
          st = (if is_out_of_school \<and> is_economically_active
                then hit 25 ''Out of school + Economic activity'' st
                else if is_out_of_school then hit 15 ''Out of school'' st
                else if is_economically_active then hit 10 ''Economic activity'' st
                else st);
          migrated = field row ''Child migrated in the last 3 months?'';
          hh_migrates = field row ''Whether Household migrates every year'';
          st = (if hh_migrates = ''yes'' then hit 20 ''Migrant family'' st
                else if py_in ''yes'' migrated then hit 15 ''Child migrated'' st
                else st);
          single_parent = field row ''Whether the HH is headed by a single parent'';
          grandparent = field row ''Whether the HH is headed by grand parents'';
          child_headed = field row ''Whether headed by children (18 years and below)'';
          st = if_then (single_parent = ''yes'' \<or> grandparent = ''yes'' \<or> child_headed = ''yes'')
                (hit 20 ''Orphan/Single parent'') st;
          ration = field row ''Type of Ration card'';
          earner_ill = field row
            ''Whether the primary bread-earner of the HH is terminally/seriously ill'';
          st = if_then (py_in ''below poverty'' ration \<or> py_in ''no ration'' ration \<or> earner_ill = ''yes'')
                (hit 10 ''Economic hardship'') st;
          st = if_then (py_in ''agent'' migrated \<or> py_in ''contractor'' migrated \<or> py_in ''labour'' migrated)
                (hit 20 ''Trafficking risk (agent migration)'') st;
          missing = field row ''Is any child missing?'';
          st = if_then (missing = ''yes'')
                (hit 15 ''Missing children in HH'') st
      in (min (fst st) 100, snd st))"

definition get_risk_level :: "int \<Rightarrow> string" where
  "get_risk_level score =
     (if score \<ge> 50 then ''High''
      else if score \<ge> 25 then ''Medium''
      else if score > 0 then ''Low''
      else ''Minimal'')"

section \<open>The repair of fix\_json\_nan.py\<close>

text \<open>
  \<^verbatim>\<open>\w\<close> of a str pattern, on the code points below 256: digits, letters, the underscore
  and the alphanumerics of Latin-1.
\<close>

definition is_word :: "char \<Rightarrow> bool" where
  "is_word c = (let n = (of_char c :: nat) in
     (48 \<le> n \<and> n \<le> 57) \<or> (65 \<le> n \<and> n \<le> 90) \<or> n = 95 \<or> (97 \<le> n \<and> n \<le> 122)
     \<or> n = 170 \<or> n = 178 \<or> n = 179 \<or> n = 181 \<or> n = 185 \<or> n = 186
     \<or> (188 \<le> n \<and> n \<le> 190) \<or> (192 \<le> n \<and> n \<le> 214) \<or> (216 \<le> n \<and> n \<le> 246)
     \<or> (248 \<le> n \<and> n \<le> 255))"

text \<open>
  \<^verbatim>\<open>\b\<close> between two neighbouring positions: exactly one side is a word character;
  outside the text counts as no word character.
\<close>

definition boundary :: "char option \<Rightarrow> char option \<Rightarrow> bool" where
  "boundary before after =
     ((case before of None \<Rightarrow> False | Some c \<Rightarrow> is_word c)
        \<noteq> (case after of None \<Rightarrow> False | Some c \<Rightarrow> is_word c))"

definition first_char :: "string \<Rightarrow> char option" where
  "first_char s = (case s of [] \<Rightarrow> None | c # _ \<Rightarrow> Some c)"

text \<open>The pattern \<^verbatim>\<open>\bLIT\b\<close> matches at the head of \<open>s\<close>, which follows \<open>before\<close>.\<close>

definition match_here :: "string \<Rightarrow> char option \<Rightarrow> string \<Rightarrow> bool" where
  "match_here lit before s =
     (lit \<noteq> [] \<and> take (length lit) s = lit
      \<and> boundary before (first_char lit)
      \<and> boundary (Some (last lit)) (first_char (drop (length lit) s)))"

text \<open>
  \<^verbatim>\<open>re.sub(r'\bLIT\b', repl, s)\<close>: the matches from the left, none overlapping, each
  replaced by \<open>repl\<close>.
\<close>

function re_sub_word :: "string \<Rightarrow> string \<Rightarrow> char option \<Rightarrow> string \<Rightarrow> string" where
  "re_sub_word lit repl before [] = []"
| "re_sub_word lit repl before (c # cs) =
     (if match_here lit before (c # cs)
      then repl @ re_sub_word lit repl (Some (last lit)) (drop (length lit - 1) cs)
      else c # re_sub_word lit repl (Some c) cs)"
  by pat_completeness auto
termination
  by (relation "measure (\<lambda>(lit, repl, before, s). length s)") auto

text \<open>The three substitutions of \<^verbatim>\<open>fix_json_file\<close>, in its order.\<close>

definition fix_content :: "string \<Rightarrow> string" where
  "fix_content content =
     (let content = re_sub_word ''NaN'' ''null'' None content;
          content = re_sub_word ''Infinity'' ''null'' None content;
          content = re_sub_word ''-Infinity'' ''null'' None content
      in content)"

text \<open>
  \<^verbatim>\<open>fix_json_file\<close> writes the text back and then loads it; \<open>loads\<close> says which texts
  \<^verbatim>\<open>json.load\<close> accepts. The result is the file's new text and the returned flag.
\<close>

definition fix_json_file :: "(string \<Rightarrow> bool) \<Rightarrow> string \<Rightarrow> string \<times> bool" where
  "fix_json_file loads content = (let content = fix_content content in (content, loads content))"

section \<open>Auxiliary notions for the proofs\<close>

text \<open>One table of the pass, taken alone, for any key and gender functions.\<close>

definition tabulate ::
  "('r \<Rightarrow> string) \<Rightarrow> ('r \<Rightarrow> bool) \<Rightarrow> ('r \<Rightarrow> bool) \<Rightarrow> 'r list \<Rightarrow> table" where
  "tabulate kf mf ff rs = foldl (\<lambda>t r. bump (kf r) (mf r) (ff r) t) [] rs"

definition tabulate2 ::
  "('r \<Rightarrow> string) \<Rightarrow> ('r \<Rightarrow> string) \<Rightarrow> ('r \<Rightarrow> bool) \<Rightarrow> ('r \<Rightarrow> bool) \<Rightarrow> 'r list \<Rightarrow> table2" where
  "tabulate2 kf yf mf ff rs = foldl (\<lambda>t r. bump2 (kf r) (yf r) (mf r) (ff r) t) [] rs"

definition relate :: "('r \<Rightarrow> string) \<Rightarrow> ('r \<Rightarrow> string) \<Rightarrow> 'r list \<Rightarrow> relmap" where
  "relate kf df rs =
     foldl (\<lambda>t r. if kf r \<noteq> ''Unknown'' \<and> df r \<noteq> ''Unknown''
                   then add_rel (kf r) (df r) t else t) [] rs"

text \<open>The counter that a list of records, all of one group, adds up to.\<close>

definition group_counter :: "('r \<Rightarrow> bool) \<Rightarrow> ('r \<Rightarrow> bool) \<Rightarrow> 'r list \<Rightarrow> counter" where
  "group_counter mf ff rs =
     \<lparr>count = length rs, boys = length (filter mf rs),
      girls = length (filter (\<lambda>r. \<not> mf r \<and> ff r) rs)\<rparr>"

text \<open>
  The counting rule in the words of the specification, on the normalised gender:
  every record counts, a male-equivalent one as a boy, a female-equivalent one as a girl.
\<close>

definition spec_tally :: "string \<Rightarrow> counter \<Rightarrow> counter" where
  "spec_tally g c =
     \<lparr>count = count c + 1,
      boys = boys c + (if g \<in> {''male'', ''m'', ''boy''} then 1 else 0),
      girls = girls c + (if g \<in> {''female'', ''f'', ''girl''} then 1 else 0)\<rparr>"

text \<open>The example records of the specification, with a year and a district on two of them.\<close>

definition example_records :: "pyrecord list" where
  "example_records =
     [[''Region'' \<mapsto> PStr ''North'', ''Gender'' \<mapsto> PStr ''Male'',
       ''Year'' \<mapsto> PStr ''2023'', ''District Name'' \<mapsto> PStr ''Agra''],
      [''Region'' \<mapsto> PStr ''North'', ''Gender'' \<mapsto> PStr ''female'',
       ''Year'' \<mapsto> PInt 2023, ''District Name'' \<mapsto> PStr ''Agra''],
      [''Region'' \<mapsto> PStr ''South'', ''Gender'' \<mapsto> PStr ''boy'']]"

text \<open>A record with the two fields of the scoring example of the specification.\<close>

definition example_girl :: pyrecord where
  "example_girl =
     [''Enrollment status'' \<mapsto> PStr ''Drop Out'',
      ''Whether the HH is headed by a single parent'' \<mapsto> PStr ''Yes'']"

text \<open>Records with two districts of one region, one of them twice and out of order.\<close>

definition example_district_records :: "pyrecord list" where
  "example_district_records =
     [[''Region Name'' \<mapsto> PStr ''North'', ''District Name'' \<mapsto> PStr ''Mathura''],
      [''Region Name'' \<mapsto> PStr ''North'', ''District Name'' \<mapsto> PStr ''Agra''],
      [''Region Name'' \<mapsto> PStr ''North'', ''District Name'' \<mapsto> PStr ''Mathura''],
      [''Region Name'' \<mapsto> PStr ''South'']]"

text \<open>An existing summary document with a key that the pass does not compute.\<close>

definition example_document :: "(string \<times> json) list" where
  "example_document = [(''totalRecords'', JInt 3), (''byRegion'', JNull)]"

text \<open>The definitions that evaluate the model on a concrete input.\<close>

lemmas char_eval = char_of_def bit_Suc_0_iff is_upper_def lower_char_def lower_def
  is_space_def strip_def is_word_def digit_char_def str_int_def str_nat.simps

lemmas record_eval = dict_get_def safe_str_def safe_lower_def region_of_def district_of_def
  year_of_def gender_of_def is_male_def is_female_def

lemmas table_eval = getitem_def bump_def bump2_def add_rel_def tally_def zero_counter_def
  step_def aggregate_def init_agg_def Let_def

section \<open>Lemmas on the tables\<close>

lemma getitem_Nil [simp]: "getitem d [] k = d"
  by (simp add: getitem_def)

lemma getitem_Cons [simp]: "getitem d (p # t) k = (if fst p = k then snd p else getitem d t k)"
  by (cases p) (auto simp: getitem_def)

lemma map_of_bump:
  "map_of (bump k m f t) k' =
     (if k' = k then Some (tally m f (getitem zero_counter t k)) else map_of t k')"
  by (simp add: bump_def update_conv')

lemma map_of_bump2:
  "map_of (bump2 k y m f t) k' =
     (if k' = k then Some (bump y m f (getitem [] t k)) else map_of t k')"
  by (simp add: bump2_def update_conv')

lemma map_of_add_rel:
  "map_of (add_rel k d t) k' =
     (if k' = k then Some (insert d (getitem {} t k)) else map_of t k')"
  by (simp add: add_rel_def update_conv')

lemma tabulate_Nil [simp]: "tabulate kf mf ff [] = []"
  by (simp add: tabulate_def)

lemma tabulate_snoc [simp]:
  "tabulate kf mf ff (rs @ [r]) = bump (kf r) (mf r) (ff r) (tabulate kf mf ff rs)"
  by (simp add: tabulate_def)

lemma tabulate2_Nil [simp]: "tabulate2 kf yf mf ff [] = []"
  by (simp add: tabulate2_def)

lemma tabulate2_snoc [simp]:
  "tabulate2 kf yf mf ff (rs @ [r]) = bump2 (kf r) (yf r) (mf r) (ff r) (tabulate2 kf yf mf ff rs)"
  by (simp add: tabulate2_def)

lemma group_counter_Nil [simp]: "group_counter mf ff [] = zero_counter"
  by (simp add: group_counter_def zero_counter_def)

lemma group_counter_snoc [simp]:
  "group_counter mf ff (rs @ [r]) = tally (mf r) (ff r) (group_counter mf ff rs)"
  by (simp add: group_counter_def tally_def)

lemma map_of_tabulate:
  "map_of (tabulate kf mf ff rs) k =
     (if k \<in> kf ` set rs then Some (group_counter mf ff (filter (\<lambda>r. kf r = k) rs)) else None)"
proof (induction rs rule: rev_induct)
  case Nil
  show ?case by simp
next
  case (snoc r rs)
  have none: "filter (\<lambda>x. kf x = k) rs = []" if "k \<notin> kf ` set rs"
    using that by (auto simp: filter_empty_conv)
  show ?case
  proof (cases "kf r = k")
    case True
    with snoc none show ?thesis
      by (auto simp: map_of_bump getitem_def)
  next
    case False
    with snoc show ?thesis
      by (auto simp: map_of_bump)
  qed
qed

lemma distinct_tabulate: "distinct (map fst (tabulate kf mf ff rs))"
  by (induction rs rule: rev_induct) (simp_all add: bump_def distinct_update)

lemma distinct_tabulate2: "distinct (map fst (tabulate2 kf yf mf ff rs))"
  by (induction rs rule: rev_induct) (simp_all add: bump2_def distinct_update)

lemma map_of_tabulate2:
  "map_of (tabulate2 kf yf mf ff rs) k =
     (if k \<in> kf ` set rs then Some (tabulate yf mf ff (filter (\<lambda>r. kf r = k) rs)) else None)"
proof (induction rs rule: rev_induct)
  case Nil
  show ?case by simp
next
  case (snoc r rs)
  have none: "filter (\<lambda>x. kf x = k) rs = []" if "k \<notin> kf ` set rs"
    using that by (auto simp: filter_empty_conv)
  show ?case
  proof (cases "kf r = k")
    case True
    with snoc none show ?thesis
      by (auto simp: map_of_bump2 getitem_def)
  next
    case False
    with snoc show ?thesis
      by (auto simp: map_of_bump2)
  qed
qed

lemma count_tally [simp]: "count (tally m f c) = Suc (count c)"
  by (simp add: tally_def Let_def)

lemma boys_tally [simp]: "boys (tally m f c) = boys c + (if m then 1 else 0)"
  by (simp add: tally_def Let_def)

lemma girls_tally [simp]: "girls (tally m f c) = girls c + (if \<not> m \<and> f then 1 else 0)"
  by (simp add: tally_def Let_def)

lemma sum_count_bump:
  "(\<Sum>p\<leftarrow>bump k m f t. count (snd p)) = Suc (\<Sum>p\<leftarrow>t. count (snd p))"
  by (induction t) (auto simp: bump_def zero_counter_def)

lemma sum_boys_bump:
  "(\<Sum>p\<leftarrow>bump k m f t. boys (snd p)) = (\<Sum>p\<leftarrow>t. boys (snd p)) + (if m then 1 else 0)"
  by (induction t) (auto simp: bump_def zero_counter_def)

lemma sum_girls_bump:
  "(\<Sum>p\<leftarrow>bump k m f t. girls (snd p)) =
     (\<Sum>p\<leftarrow>t. girls (snd p)) + (if \<not> m \<and> f then 1 else 0)"
  by (induction t) (auto simp: bump_def zero_counter_def)

lemma sum_count_tabulate: "(\<Sum>p\<leftarrow>tabulate kf mf ff rs. count (snd p)) = length rs"
  by (induction rs rule: rev_induct) (simp_all add: sum_count_bump)

lemma sum_boys_tabulate:
  "(\<Sum>p\<leftarrow>tabulate kf mf ff rs. boys (snd p)) = length (filter mf rs)"
  by (induction rs rule: rev_induct) (simp_all add: sum_boys_bump)

lemma sum_girls_tabulate:
  "(\<Sum>p\<leftarrow>tabulate kf mf ff rs. girls (snd p)) = length (filter (\<lambda>r. \<not> mf r \<and> ff r) rs)"
  by (induction rs rule: rev_induct) (simp_all add: sum_girls_bump)

lemma sum_keys_eq_sum_list:
  "distinct (map fst t) \<Longrightarrow>
     (\<Sum>k \<in> fst ` set t. g (the (map_of t k))) = (\<Sum>p\<leftarrow>t. g (snd p))"
proof (induction t)
  case Nil
  show ?case by simp
next
  case (Cons p t)
  obtain a b where p: "p = (a, b)" by (cases p)
  from Cons.prems p have notin: "a \<notin> fst ` set t" and dist: "distinct (map fst t)" by auto
  have "(\<Sum>k \<in> fst ` set t. g (the (map_of (p # t) k))) = (\<Sum>k \<in> fst ` set t. g (the (map_of t k)))"
    by (rule sum.cong) (use notin p in auto)
  with Cons.IH [OF dist] notin p show ?case by simp
qed

subsection \<open>The pass, table by table\<close>

lemma byRegion_foldl:
  "byRegion (foldl step s rs) =
     foldl (\<lambda>t r. bump (region_of r) (is_male r) (is_female r) t) (byRegion s) rs"
  by (induction rs arbitrary: s) (simp_all add: step_def Let_def)

lemma byDistrict_foldl:
  "byDistrict (foldl step s rs) =
     foldl (\<lambda>t r. bump (district_of r) (is_male r) (is_female r) t) (byDistrict s) rs"
  by (induction rs arbitrary: s) (simp_all add: step_def Let_def)

lemma regionYearData_foldl:
  "regionYearData (foldl step s rs) =
     foldl (\<lambda>t r. bump2 (region_of r) (year_of r) (is_male r) (is_female r) t)
       (regionYearData s) rs"
  by (induction rs arbitrary: s) (simp_all add: step_def Let_def)

lemma districtYearData_foldl:
  "districtYearData (foldl step s rs) =
     foldl (\<lambda>t r. bump2 (district_of r) (year_of r) (is_male r) (is_female r) t)
       (districtYearData s) rs"
  by (induction rs arbitrary: s) (simp_all add: step_def Let_def)

lemma regionDistrictMap_foldl:
  "regionDistrictMap (foldl step s rs) =
     foldl (\<lambda>t r. if region_of r \<noteq> ''Unknown'' \<and> district_of r \<noteq> ''Unknown''
                   then add_rel (region_of r) (district_of r) t else t)
       (regionDistrictMap s) rs"
  by (induction rs arbitrary: s) (simp_all add: step_def Let_def)

lemma byRegion_aggregate:
  "byRegion (aggregate rs) = tabulate region_of is_male is_female rs"
  by (simp add: aggregate_def byRegion_foldl tabulate_def init_agg_def)

lemma byDistrict_aggregate:
  "byDistrict (aggregate rs) = tabulate district_of is_male is_female rs"
  by (simp add: aggregate_def byDistrict_foldl tabulate_def init_agg_def)

lemma regionYearData_aggregate:
  "regionYearData (aggregate rs) = tabulate2 region_of year_of is_male is_female rs"
  by (simp add: aggregate_def regionYearData_foldl tabulate2_def init_agg_def)

lemma districtYearData_aggregate:
  "districtYearData (aggregate rs) = tabulate2 district_of year_of is_male is_female rs"
  by (simp add: aggregate_def districtYearData_foldl tabulate2_def init_agg_def)

lemma regionDistrictMap_aggregate:
  "regionDistrictMap (aggregate rs) = relate region_of district_of rs"
  by (simp add: aggregate_def regionDistrictMap_foldl relate_def init_agg_def)

subsection \<open>What one group's counter says\<close>

lemma group_counter_split:
  "boys (group_counter mf ff xs) + girls (group_counter mf ff xs)
     = length (filter (\<lambda>r. mf r \<or> ff r) xs)"
  by (induction xs) (auto simp: group_counter_def)

lemma length_filter_full: "(length (filter P xs) = length xs) = (\<forall>x \<in> set xs. P x)"
proof -
  have "length (filter P xs) + length (filter (\<lambda>x. \<not> P x) xs) = length xs"
    by (rule sum_length_filter_compl)
  then have "(length (filter P xs) = length xs) = (filter (\<lambda>x. \<not> P x) xs = [])"
    by auto
  then show ?thesis
    by (simp add: filter_empty_conv)
qed

lemma group_counter_bound:
  "boys (group_counter mf ff xs) + girls (group_counter mf ff xs) \<le> count (group_counter mf ff xs)"
  by (simp add: group_counter_split) (simp add: group_counter_def)

lemma group_counter_full:
  "(boys (group_counter mf ff xs) + girls (group_counter mf ff xs) = count (group_counter mf ff xs))
     = (\<forall>r \<in> set xs. mf r \<or> ff r)"
proof -
  have "count (group_counter mf ff xs) = length xs"
    by (simp add: group_counter_def)
  then show ?thesis
    by (simp add: group_counter_split length_filter_full)
qed

lemma tabulate_bound:
  assumes "map_of (tabulate kf mf ff rs) k = Some c"
  shows "boys c + girls c \<le> count c"
    and "(boys c + girls c = count c) = (\<forall>r \<in> set rs. kf r = k \<longrightarrow> mf r \<or> ff r)"
proof -
  from assms have c: "c = group_counter mf ff (filter (\<lambda>r. kf r = k) rs)"
    by (simp add: map_of_tabulate split: if_splits)
  show "boys c + girls c \<le> count c"
    unfolding c by (rule group_counter_bound)
  show "(boys c + girls c = count c) = (\<forall>r \<in> set rs. kf r = k \<longrightarrow> mf r \<or> ff r)"
    unfolding c group_counter_full by auto
qed

lemma tabulate2_bound:
  assumes "map_of (tabulate2 kf yf mf ff rs) k = Some t" and "map_of t y = Some c"
  shows "boys c + girls c \<le> count c"
    and "(boys c + girls c = count c)
           = (\<forall>r \<in> set rs. kf r = k \<and> yf r = y \<longrightarrow> mf r \<or> ff r)"
proof -
  from assms(1) have t: "t = tabulate yf mf ff (filter (\<lambda>r. kf r = k) rs)"
    by (simp add: map_of_tabulate2 split: if_splits)
  from assms(2) have inner: "map_of (tabulate yf mf ff (filter (\<lambda>r. kf r = k) rs)) y = Some c"
    by (simp add: t)
  show "boys c + girls c \<le> count c"
    by (rule tabulate_bound(1) [OF inner])
  show "(boys c + girls c = count c)
          = (\<forall>r \<in> set rs. kf r = k \<and> yf r = y \<longrightarrow> mf r \<or> ff r)"
    unfolding tabulate_bound(2) [OF inner] by auto
qed

lemma tabulate2_consistent:
  assumes "map_of (tabulate kf mf ff rs) k = Some c"
  shows "\<exists>t. map_of (tabulate2 kf yf mf ff rs) k = Some t
           \<and> (\<Sum>y \<in> fst ` set t. count (the (map_of t y))) = count c
           \<and> (\<Sum>y \<in> fst ` set t. boys (the (map_of t y))) = boys c
           \<and> (\<Sum>y \<in> fst ` set t. girls (the (map_of t y))) = girls c"
proof -
  let ?grp = "filter (\<lambda>r. kf r = k) rs"
  let ?t = "tabulate yf mf ff ?grp"
  from assms have k: "k \<in> kf ` set rs" and c: "c = group_counter mf ff ?grp"
    by (simp_all add: map_of_tabulate split: if_splits)
  have t: "map_of (tabulate2 kf yf mf ff rs) k = Some ?t"
    using k by (simp add: map_of_tabulate2)
  have d: "distinct (map fst ?t)"
    by (rule distinct_tabulate)
  have "(\<Sum>y \<in> fst ` set ?t. count (the (map_of ?t y))) = count c"
    by (simp add: sum_keys_eq_sum_list [OF d] sum_count_tabulate c group_counter_def)
  moreover have "(\<Sum>y \<in> fst ` set ?t. boys (the (map_of ?t y))) = boys c"
    by (simp add: sum_keys_eq_sum_list [OF d] sum_boys_tabulate c group_counter_def)
  moreover have "(\<Sum>y \<in> fst ` set ?t. girls (the (map_of ?t y))) = girls c"
    by (simp add: sum_keys_eq_sum_list [OF d] sum_girls_tabulate c group_counter_def)
  ultimately show ?thesis
    using t by blast
qed

lemma keys_tabulate: "fst ` set (tabulate kf mf ff rs) = kf ` set rs"
  by (induction rs rule: rev_induct) (auto simp: bump_def dom_update)

lemma keys_tabulate2: "fst ` set (tabulate2 kf yf mf ff rs) = kf ` set rs"
  by (induction rs rule: rev_induct) (auto simp: bump2_def dom_update)

lemma sum_count_keys_tabulate:
  "(\<Sum>k \<in> fst ` set (tabulate kf mf ff rs). count (the (map_of (tabulate kf mf ff rs) k)))
     = length rs"
  by (simp add: sum_keys_eq_sum_list [OF distinct_tabulate] sum_count_tabulate)

subsection \<open>The relation from regions to districts\<close>

lemma relate_Nil [simp]: "relate kf df [] = []"
  by (simp add: relate_def)

lemma relate_snoc [simp]:
  "relate kf df (rs @ [r]) =
     (if kf r \<noteq> ''Unknown'' \<and> df r \<noteq> ''Unknown''
      then add_rel (kf r) (df r) (relate kf df rs) else relate kf df rs)"
  by (simp add: relate_def)

lemma map_of_relate:
  "map_of (relate kf df rs) k =
     (if k \<noteq> ''Unknown'' \<and> (\<exists>r \<in> set rs. kf r = k \<and> df r \<noteq> ''Unknown'')
      then Some (df ` {r \<in> set rs. kf r = k \<and> df r \<noteq> ''Unknown''})
      else None)"
proof (induction rs rule: rev_induct)
  case Nil
  show ?case by simp
next
  case (snoc r rs)
  show ?case
  proof (cases "kf r \<noteq> ''Unknown'' \<and> df r \<noteq> ''Unknown''")
    case False
    with snoc show ?thesis by auto
  next
    case True
    show ?thesis
    proof (cases "k = kf r")
      case False
      with True snoc show ?thesis
        by (auto simp: map_of_add_rel)
    next
      case same: True
      have old: "getitem {} (relate kf df rs) (kf r)
                   = df ` {x \<in> set rs. kf x = kf r \<and> df x \<noteq> ''Unknown''}"
        using snoc same True by (auto simp: getitem_def)
      have "df ` {x \<in> set (rs @ [r]). kf x = k \<and> df x \<noteq> ''Unknown''}
              = insert (df r) (df ` {x \<in> set rs. kf x = kf r \<and> df x \<noteq> ''Unknown''})"
        using True same by auto
      with True same old show ?thesis
        by (auto simp: map_of_add_rel)
    qed
  qed
qed

lemma relate_set_cong:
  "set rs = set rs' \<Longrightarrow> map_of (relate kf df rs) = map_of (relate kf df rs')"
  by (rule ext) (simp add: map_of_relate)

lemma relate_finite: "map_of (relate kf df rs) k = Some S \<Longrightarrow> finite S"
  by (auto simp: map_of_relate split: if_splits)

lemma relate_member:
  "(\<exists>S. map_of (relate kf df rs) k = Some S \<and> d \<in> S)
     = (\<exists>r \<in> set rs. kf r = k \<and> df r = d \<and> k \<noteq> ''Unknown'' \<and> d \<noteq> ''Unknown'')"
  by (auto simp: map_of_relate)

lemma map_of_sorted_districts:
  "map_of (sorted_districts t) k = map_option sorted_list_of_set (map_of t k)"
  by (simp add: sorted_districts_def map_of_map)

subsection \<open>The document after the five assignments\<close>

lemma map_of_put_aggregations:
  "map_of (put_aggregations s d) k =
     (if k = ''regionDistrictMap'' then Some (relmap_json (regionDistrictMap s))
      else if k = ''districtYearData'' then Some (table2_json (districtYearData s))
      else if k = ''regionYearData'' then Some (table2_json (regionYearData s))
      else if k = ''byDistrict'' then Some (table_json (byDistrict s))
      else if k = ''byRegion'' then Some (table_json (byRegion s))
      else map_of d k)"
  by (simp add: put_aggregations_def Let_def update_conv')

subsection \<open>Strings\<close>

lemma py_in_iff: "py_in sub s = (\<exists>ps ss. s = ps @ sub @ ss)"
proof (induction s)
  case Nil
  show ?case by auto
next
  case (Cons c cs)
  show ?case
  proof
    assume "py_in sub (c # cs)"
    then consider "take (length sub) (c # cs) = sub" | "py_in sub cs"
      by auto
    then show "\<exists>ps ss. c # cs = ps @ sub @ ss"
    proof cases
      case 1
      then have "c # cs = [] @ sub @ drop (length sub) (c # cs)"
        by (metis append_Nil append_take_drop_id)
      then show ?thesis by blast
    next
      case 2
      with Cons.IH obtain ps ss where "cs = ps @ sub @ ss" by auto
      then have "c # cs = (c # ps) @ sub @ ss" by simp
      then show ?thesis by blast
    qed
  next
    assume "\<exists>ps ss. c # cs = ps @ sub @ ss"
    then obtain ps ss where eq: "c # cs = ps @ sub @ ss" by auto
    show "py_in sub (c # cs)"
    proof (cases ps)
      case Nil
      with eq have "take (length sub) (c # cs) = sub" by simp
      then show ?thesis by simp
    next
      case (Cons p ps')
      with eq have "cs = ps' @ sub @ ss" by simp
      with Cons.IH have "py_in sub cs" by blast
      then show ?thesis by simp
    qed
  qed
qed

lemma py_in_lower: "py_in sub s \<Longrightarrow> py_in (lower sub) (lower s)"
  unfolding py_in_iff lower_def by (metis map_append)

lemma str_int_2023: "str_int 2023 = ''2023''"
  by (simp add: char_eval)

lemma lower_Drop_Out: "lower ''Drop Out'' = ''drop out''"
  by (simp add: char_eval)

lemma lower_Yes: "lower ''Yes'' = ''yes''"
  by (simp add: char_eval)

lemma lower_Nil [simp]: "lower [] = []"
  by (simp add: lower_def)

subsection \<open>Scores\<close>

lemma hit_nonneg: "0 \<le> p \<Longrightarrow> 0 \<le> fst st \<Longrightarrow> 0 \<le> fst (hit p label st)"
  by (simp add: hit_def)

lemma if_then_nonneg:
  "(\<And>s. 0 \<le> fst s \<Longrightarrow> 0 \<le> fst (body s)) \<Longrightarrow> 0 \<le> fst st \<Longrightarrow> 0 \<le> fst (if_then c body st)"
  for st :: "int \<times> string list"
  by (simp add: if_then_def)

lemma if_nonneg:
  "0 \<le> fst a \<Longrightarrow> 0 \<le> fst b \<Longrightarrow> 0 \<le> fst (if c then a else b)"
  for a :: "int \<times> string list"
  by simp

lemma start_nonneg: "0 \<le> fst ((0, []) :: int \<times> string list)"
  by simp

lemmas score_nonneg = if_then_nonneg if_nonneg hit_nonneg start_nonneg

lemma marriage_nonneg: "0 \<le> fst (calc_child_marriage_risk row)"
  unfolding calc_child_marriage_risk_def Let_def fst_conv
  by (rule min.boundedI) (intro score_nonneg | simp)+

lemma labour_nonneg: "0 \<le> fst (calc_child_labour_risk row)"
  unfolding calc_child_labour_risk_def Let_def fst_conv
  by (rule min.boundedI) (intro score_nonneg | simp)+

lemma trafficking_nonneg: "0 \<le> fst (calc_child_trafficking_risk row)"
  unfolding calc_child_trafficking_risk_def Let_def fst_conv
  by (rule min.boundedI) (intro score_nonneg | simp)+

lemma marriage_le: "fst (calc_child_marriage_risk row) \<le> 100"
  unfolding calc_child_marriage_risk_def Let_def fst_conv
  by (rule min.cobounded2)

lemma labour_le: "fst (calc_child_labour_risk row) \<le> 100"
  unfolding calc_child_labour_risk_def Let_def fst_conv
  by (rule min.cobounded2)

lemma trafficking_le: "fst (calc_child_trafficking_risk row) \<le> 100"
  unfolding calc_child_trafficking_risk_def Let_def fst_conv
  by (rule min.cobounded2)

subsection \<open>The examples, evaluated\<close>

lemma aggregate_example:
  "aggregate example_records =
     \<lparr>byRegion = [(''North'', \<lparr>count = 2, boys = 1, girls = 1\<rparr>),
                  (''South'', \<lparr>count = 1, boys = 1, girls = 0\<rparr>)],
      byDistrict = [(''Agra'', \<lparr>count = 2, boys = 1, girls = 1\<rparr>),
                    (''Unknown'', \<lparr>count = 1, boys = 1, girls = 0\<rparr>)],
      regionYearData =
        [(''North'', [(''2023'', \<lparr>count = 2, boys = 1, girls = 1\<rparr>)]),
         (''South'', [(''Unknown'', \<lparr>count = 1, boys = 1, girls = 0\<rparr>)])],
      districtYearData =
        [(''Agra'', [(''2023'', \<lparr>count = 2, boys = 1, girls = 1\<rparr>)]),
         (''Unknown'', [(''Unknown'', \<lparr>count = 1, boys = 1, girls = 0\<rparr>)])],
      regionDistrictMap = [(''North'', {''Agra''})]\<rparr>"
  by (simp add: example_records_def table_eval record_eval char_eval)

lemma field_example_girl:
  "field example_girl ''Enrollment status'' = ''drop out''"
  "field example_girl ''Whether the HH is headed by a single parent'' = ''yes''"
  "k \<noteq> ''Enrollment status'' \<Longrightarrow> k \<noteq> ''Whether the HH is headed by a single parent''
     \<Longrightarrow> field example_girl k = []"
  by (simp_all add: field_def example_girl_def dict_get_def char_eval)

section \<open>The claims\<close>

text \<open>
  C2: for every sequence of input records, after the single aggregation pass the counts of
  all keys of \<open>byRegion\<close> add up to the number of records processed, and so do the counts
  of all keys of \<open>byDistrict\<close>: every record is counted in exactly one group of each
  table, a record whose region or district is absent, null or blank in the group
  \<open>Unknown\<close>.
\<close>

theorem counts_sum_to_records:
  "(\<Sum>k \<in> fst ` set (byRegion (aggregate rs)).
       count (the (map_of (byRegion (aggregate rs)) k))) = length rs
   \<and> (\<Sum>k \<in> fst ` set (byDistrict (aggregate rs)).
       count (the (map_of (byDistrict (aggregate rs)) k))) = length rs
   \<and> fst ` set (byRegion (aggregate rs)) = region_of ` set rs
   \<and> fst ` set (byDistrict (aggregate rs)) = district_of ` set rs
   \<and> (\<forall>k c. map_of (byRegion (aggregate rs)) k = Some c \<longrightarrow>
        count c = length (filter (\<lambda>r. region_of r = k) rs))
   \<and> (\<forall>k c. map_of (byDistrict (aggregate rs)) k = Some c \<longrightarrow>
        count c = length (filter (\<lambda>r. district_of r = k) rs))
   \<and> (\<forall>r. r ''Region Name'' = None \<and> r ''Region'' = None \<longrightarrow> region_of r = ''Unknown'')
   \<and> (\<forall>r v. r ''Region Name'' = Some v \<and> strip (py_str v) = [] \<longrightarrow>
        region_of r = ''Unknown'')
   \<and> (\<forall>r. r ''District Name'' = None \<and> r ''District'' = None \<longrightarrow>
        district_of r = ''Unknown'')
   \<and> (\<forall>r v. r ''District Name'' = Some v \<and> strip (py_str v) = [] \<longrightarrow>
        district_of r = ''Unknown'')
   \<and> (\<forall>r. r ''Region Name'' = Some PNone \<longrightarrow> region_of r = ''Unknown'')
   \<and> (\<forall>r. r ''District Name'' = Some PNone \<longrightarrow> district_of r = ''Unknown'')"
proof -
  have size: "count c = length (filter (\<lambda>r. kf r = k) rs)"
    if "map_of (tabulate kf mf ff rs) k = Some c" for kf mf ff k c
    using that by (auto simp: map_of_tabulate group_counter_def split: if_splits)
  have unknown: "safe_str (PStr ''Unknown'') ''Unknown'' = ''Unknown''"
    by (simp add: safe_str_def char_eval)
  have null: "safe_str PNone d = d" for d
    by (simp add: safe_str_def)
  have blank: "safe_str v ''Unknown'' = ''Unknown''" if "strip (py_str v) = []" for v
    using that by (simp add: safe_str_def)
  show ?thesis
    unfolding byRegion_aggregate byDistrict_aggregate
    by (intro conjI allI impI sum_count_keys_tabulate keys_tabulate)
       (auto simp: size region_of_def district_of_def dict_get_def blank unknown null)
qed

theorem counts_sum_to_records_witness:
  "(\<Sum>k \<in> fst ` set (byRegion (aggregate example_records)).
       count (the (map_of (byRegion (aggregate example_records)) k))) = 3
   \<and> (\<Sum>k \<in> fst ` set (byDistrict (aggregate example_records)).
       count (the (map_of (byDistrict (aggregate example_records)) k))) = 3
   \<and> map_of (byRegion (aggregate example_records)) ''North''
       = Some \<lparr>count = 2, boys = 1, girls = 1\<rparr>
   \<and> length (filter (\<lambda>r. region_of r = ''North'') example_records) = 2
   \<and> map_of (byDistrict (aggregate example_records)) ''Unknown''
       = Some \<lparr>count = 1, boys = 1, girls = 0\<rparr>
   \<and> length (filter (\<lambda>r. district_of r = ''Unknown'') example_records) = 1
   \<and> region_of Map.empty = ''Unknown''
   \<and> region_of [''Region Name'' \<mapsto> PStr ''  ''] = ''Unknown''
   \<and> district_of Map.empty = ''Unknown''
   \<and> district_of [''District Name'' \<mapsto> PStr ''  ''] = ''Unknown''
   \<and> region_of [''Region Name'' \<mapsto> PNone, ''Region'' \<mapsto> PStr ''North''] = ''Unknown''
   \<and> district_of [''District Name'' \<mapsto> PNone] = ''Unknown''"
proof -
  note all = counts_sum_to_records [of example_records]
  have n: "length example_records = 3"
    by (simp add: example_records_def)
  have r: "map_of (byRegion (aggregate example_records)) ''North''
      = Some \<lparr>count = 2, boys = 1, girls = 1\<rparr>"
    and d: "map_of (byDistrict (aggregate example_records)) ''Unknown''
      = Some \<lparr>count = 1, boys = 1, girls = 0\<rparr>"
    by (simp_all add: aggregate_example)
  have e: "(Map.empty :: pyrecord) ''Region Name'' = None \<and> (Map.empty :: pyrecord) ''Region'' = None"
    and f: "(Map.empty :: pyrecord) ''District Name'' = None
      \<and> (Map.empty :: pyrecord) ''District'' = None"
    and b: "[''Region Name'' \<mapsto> PStr ''  ''] ''Region Name'' = Some (PStr ''  '')
      \<and> strip (py_str (PStr ''  '')) = []"
    and c: "[''District Name'' \<mapsto> PStr ''  ''] ''District Name'' = Some (PStr ''  '')
      \<and> strip (py_str (PStr ''  '')) = []"
    by (simp_all add: char_eval)
  note c1 = all [THEN conjunct1]
    and c2 = all [THEN conjunct2, THEN conjunct1]
    and rest = all [THEN conjunct2, THEN conjunct2, THEN conjunct2, THEN conjunct2]
  note c5 = rest [THEN conjunct1, rule_format, OF r]
    and c6 = rest [THEN conjunct2, THEN conjunct1, rule_format, OF d]
    and rest' = rest [THEN conjunct2, THEN conjunct2]
  note c7 = rest' [THEN conjunct1, rule_format, of "Map.empty :: pyrecord", OF e]
    and c8 = rest' [THEN conjunct2, THEN conjunct1, rule_format,
      of "[''Region Name'' \<mapsto> PStr ''  '']" "PStr ''  ''", OF b]
    and c9 = rest' [THEN conjunct2, THEN conjunct2, THEN conjunct1, rule_format,
      of "Map.empty :: pyrecord", OF f]
    and c10 = rest' [THEN conjunct2, THEN conjunct2, THEN conjunct2, THEN conjunct1,
      rule_format, of "[''District Name'' \<mapsto> PStr ''  '']" "PStr ''  ''", OF c]
    and nulls = rest' [THEN conjunct2, THEN conjunct2, THEN conjunct2, THEN conjunct2]
  have g: "[''Region Name'' \<mapsto> PNone, ''Region'' \<mapsto> PStr ''North''] ''Region Name'' = Some PNone"
    and h: "[''District Name'' \<mapsto> PNone] ''District Name'' = Some PNone"
    by simp_all
  note c11 = nulls [THEN conjunct1, rule_format,
      of "[''Region Name'' \<mapsto> PNone, ''Region'' \<mapsto> PStr ''North'']", OF g]
    and c12 = nulls [THEN conjunct2, rule_format, of "[''District Name'' \<mapsto> PNone]", OF h]
  from c1 c2 c5 c6 c7 c8 c9 c10 c11 c12 r d show ?thesis
    by (simp add: n)
qed

text \<open>
  C3: for every group of every table of the pass (\<open>byRegion\<close>, \<open>byDistrict\<close>,
  \<open>regionYearData\<close>, \<open>districtYearData\<close>), boys plus girls is at most count, and
  the two are equal exactly when every record of the group has a gender that is classified
  as male-equivalent or as female-equivalent.
\<close>

theorem boys_girls_le_count:
  "(\<forall>k c. map_of (byRegion (aggregate rs)) k = Some c \<longrightarrow>
      boys c + girls c \<le> count c
      \<and> ((boys c + girls c = count c)
           = (\<forall>r \<in> set rs. region_of r = k \<longrightarrow> is_male r \<or> is_female r)))
   \<and> (\<forall>k c. map_of (byDistrict (aggregate rs)) k = Some c \<longrightarrow>
      boys c + girls c \<le> count c
      \<and> ((boys c + girls c = count c)
           = (\<forall>r \<in> set rs. district_of r = k \<longrightarrow> is_male r \<or> is_female r)))
   \<and> (\<forall>k y t c. map_of (regionYearData (aggregate rs)) k = Some t \<and> map_of t y = Some c \<longrightarrow>
      boys c + girls c \<le> count c
      \<and> ((boys c + girls c = count c)
           = (\<forall>r \<in> set rs. region_of r = k \<and> year_of r = y \<longrightarrow> is_male r \<or> is_female r)))
   \<and> (\<forall>k y t c. map_of (districtYearData (aggregate rs)) k = Some t \<and> map_of t y = Some c \<longrightarrow>
      boys c + girls c \<le> count c
      \<and> ((boys c + girls c = count c)
           = (\<forall>r \<in> set rs. district_of r = k \<and> year_of r = y \<longrightarrow> is_male r \<or> is_female r)))"
  unfolding byRegion_aggregate byDistrict_aggregate regionYearData_aggregate
    districtYearData_aggregate
  by (intro conjI allI impI; (elim conjE)?; (rule tabulate_bound tabulate2_bound; assumption))

theorem boys_girls_le_count_witness:
  "map_of (byRegion (aggregate example_records)) ''North''
     = Some \<lparr>count = 2, boys = 1, girls = 1\<rparr>
   \<and> ((1 + 1 = (2 :: nat))
        = (\<forall>r \<in> set example_records. region_of r = ''North'' \<longrightarrow> is_male r \<or> is_female r))
   \<and> map_of (byDistrict (aggregate example_records)) ''Agra''
     = Some \<lparr>count = 2, boys = 1, girls = 1\<rparr>
   \<and> ((1 + 1 = (2 :: nat))
        = (\<forall>r \<in> set example_records. district_of r = ''Agra'' \<longrightarrow> is_male r \<or> is_female r))
   \<and> map_of (regionYearData (aggregate example_records)) ''North''
     = Some [(''2023'', \<lparr>count = 2, boys = 1, girls = 1\<rparr>)]
   \<and> ((1 + 1 = (2 :: nat))
        = (\<forall>r \<in> set example_records.
             region_of r = ''North'' \<and> year_of r = ''2023'' \<longrightarrow> is_male r \<or> is_female r))
   \<and> map_of (districtYearData (aggregate example_records)) ''Agra''
     = Some [(''2023'', \<lparr>count = 2, boys = 1, girls = 1\<rparr>)]
   \<and> ((1 + 1 = (2 :: nat))
        = (\<forall>r \<in> set example_records.
             district_of r = ''Agra'' \<and> year_of r = ''2023'' \<longrightarrow> is_male r \<or> is_female r))"
proof -
  let ?c = "\<lparr>count = 2, boys = 1, girls = 1\<rparr>"
  note all = boys_girls_le_count [of example_records]
  have r: "map_of (byRegion (aggregate example_records)) ''North'' = Some ?c"
    and d: "map_of (byDistrict (aggregate example_records)) ''Agra'' = Some ?c"
    and ry: "map_of (regionYearData (aggregate example_records)) ''North'' = Some [(''2023'', ?c)]
             \<and> map_of [(''2023'', ?c)] ''2023'' = Some ?c"
    and dy: "map_of (districtYearData (aggregate example_records)) ''Agra'' = Some [(''2023'', ?c)]
             \<and> map_of [(''2023'', ?c)] ''2023'' = Some ?c"
    by (simp_all add: aggregate_example)
  note all [THEN conjunct1, rule_format, OF r]
    all [THEN conjunct2, THEN conjunct1, rule_format, OF d]
    all [THEN conjunct2, THEN conjunct2, THEN conjunct1, rule_format, OF ry]
    all [THEN conjunct2, THEN conjunct2, THEN conjunct2, rule_format, OF dy]
  then show ?thesis
    using r d ry dy by simp
qed

text \<open>
  C10: after the pass over any sequence of records the tables with one key and with two
  keys agree: for every region key, the counts, the boys and the girls of
  \<open>regionYearData[region]\<close>, added up over all its year keys, are those of
  \<open>byRegion[region]\<close>; likewise for \<open>districtYearData\<close> and \<open>byDistrict\<close>. The
  two tables of a dimension have the same keys.
\<close>

theorem year_tables_consistent:
  "(\<forall>k c. map_of (byRegion (aggregate rs)) k = Some c \<longrightarrow>
      (\<exists>t. map_of (regionYearData (aggregate rs)) k = Some t
         \<and> (\<Sum>y \<in> fst ` set t. count (the (map_of t y))) = count c
         \<and> (\<Sum>y \<in> fst ` set t. boys (the (map_of t y))) = boys c
         \<and> (\<Sum>y \<in> fst ` set t. girls (the (map_of t y))) = girls c))
   \<and> (\<forall>k c. map_of (byDistrict (aggregate rs)) k = Some c \<longrightarrow>
      (\<exists>t. map_of (districtYearData (aggregate rs)) k = Some t
         \<and> (\<Sum>y \<in> fst ` set t. count (the (map_of t y))) = count c
         \<and> (\<Sum>y \<in> fst ` set t. boys (the (map_of t y))) = boys c
         \<and> (\<Sum>y \<in> fst ` set t. girls (the (map_of t y))) = girls c))
   \<and> fst ` set (regionYearData (aggregate rs)) = fst ` set (byRegion (aggregate rs))
   \<and> fst ` set (districtYearData (aggregate rs)) = fst ` set (byDistrict (aggregate rs))"
  unfolding byRegion_aggregate byDistrict_aggregate regionYearData_aggregate
    districtYearData_aggregate keys_tabulate keys_tabulate2
  by (intro conjI allI impI refl; rule tabulate2_consistent; assumption)

theorem year_tables_consistent_witness:
  "map_of (byRegion (aggregate example_records)) ''North''
     = Some \<lparr>count = 2, boys = 1, girls = 1\<rparr>
   \<and> (\<exists>t. map_of (regionYearData (aggregate example_records)) ''North'' = Some t
         \<and> (\<Sum>y \<in> fst ` set t. count (the (map_of t y))) = 2
         \<and> (\<Sum>y \<in> fst ` set t. boys (the (map_of t y))) = 1
         \<and> (\<Sum>y \<in> fst ` set t. girls (the (map_of t y))) = 1)
   \<and> map_of (byDistrict (aggregate example_records)) ''Unknown''
     = Some \<lparr>count = 1, boys = 1, girls = 0\<rparr>
   \<and> (\<exists>t. map_of (districtYearData (aggregate example_records)) ''Unknown'' = Some t
         \<and> (\<Sum>y \<in> fst ` set t. count (the (map_of t y))) = 1
         \<and> (\<Sum>y \<in> fst ` set t. boys (the (map_of t y))) = 1
         \<and> (\<Sum>y \<in> fst ` set t. girls (the (map_of t y))) = 0)"
proof -
  note all = year_tables_consistent [of example_records]
  have r: "map_of (byRegion (aggregate example_records)) ''North''
             = Some \<lparr>count = 2, boys = 1, girls = 1\<rparr>"
    and d: "map_of (byDistrict (aggregate example_records)) ''Unknown''
             = Some \<lparr>count = 1, boys = 1, girls = 0\<rparr>"
    by (simp_all add: aggregate_example)
  note all [THEN conjunct1, rule_format, OF r]
    all [THEN conjunct2, THEN conjunct1, rule_format, OF d]
  then show ?thesis
    using r d by simp
qed

text \<open>
  C1: for every input record each of the three risk scorers (child marriage, child labour,
  child trafficking) returns a score in the closed interval from 0 to 100, and the risk
  level is a function of the score alone with fixed thresholds: a score of at least 50 is
  High, one from 25 and below 50 is Medium, one above 0 and below 25 is Low, and the
  score 0 is Minimal.
\<close>

theorem risk_score_range_and_level:
  "0 \<le> fst (calc_child_marriage_risk row) \<and> fst (calc_child_marriage_risk row) \<le> 100
   \<and> 0 \<le> fst (calc_child_labour_risk row) \<and> fst (calc_child_labour_risk row) \<le> 100
   \<and> 0 \<le> fst (calc_child_trafficking_risk row) \<and> fst (calc_child_trafficking_risk row) \<le> 100
   \<and> (\<forall>score. 50 \<le> score \<longrightarrow> get_risk_level score = ''High'')
   \<and> (\<forall>score. 25 \<le> score \<and> score < 50 \<longrightarrow> get_risk_level score = ''Medium'')
   \<and> (\<forall>score. 0 < score \<and> score < 25 \<longrightarrow> get_risk_level score = ''Low'')
   \<and> get_risk_level 0 = ''Minimal''"
  by (simp add: marriage_nonneg marriage_le labour_nonneg labour_le trafficking_nonneg
      trafficking_le get_risk_level_def)

theorem risk_score_range_and_level_witness:
  "0 \<le> fst (calc_child_marriage_risk example_girl)
   \<and> fst (calc_child_marriage_risk example_girl) \<le> 100
   \<and> 0 \<le> fst (calc_child_labour_risk example_girl)
   \<and> fst (calc_child_labour_risk example_girl) \<le> 100
   \<and> 0 \<le> fst (calc_child_trafficking_risk example_girl)
   \<and> fst (calc_child_trafficking_risk example_girl) \<le> 100
   \<and> get_risk_level 50 = ''High'' \<and> get_risk_level 100 = ''High''
   \<and> get_risk_level 25 = ''Medium'' \<and> get_risk_level 49 = ''Medium''
   \<and> get_risk_level 1 = ''Low'' \<and> get_risk_level 24 = ''Low''
   \<and> get_risk_level 0 = ''Minimal''"
  using risk_score_range_and_level [of example_girl] by simp

text \<open>
  C8: for a record whose enrollment status contains "Drop Out" and whose single-parent
  household flag is "Yes", with no other rule of the child marriage scorer triggered, the
  scorer returns the score 35 (20 for out of school and 15 for orphan or single parent)
  with the two factor labels in the order of the rules, and the risk level is Medium.
\<close>

theorem marriage_example:
  assumes "row ''Enrollment status'' = Some (PStr e)"
    and "py_in ''Drop Out'' e"
    and "row ''Whether the HH is headed by a single parent'' = Some (PStr ''Yes'')"
    and "field row ''Whether the primary bread-earner of the HH is terminally/seriously ill''
           \<noteq> ''yes''"
    and "\<not> py_in ''yes'' (field row ''Child migrated in the last 3 months?'')"
    and "field row ''Whether Household migrates every year'' \<noteq> ''yes''"
    and "field row ''Is any child missing?'' \<noteq> ''yes''"
    and "\<not> py_in ''below poverty'' (field row ''Type of Ration card'')"
    and "\<not> py_in ''no ration'' (field row ''Type of Ration card'')"
  shows "calc_child_marriage_risk row = (35, [''Out of school'', ''Orphan/Single parent''])
    \<and> get_risk_level (fst (calc_child_marriage_risk row)) = ''Medium''"
proof -
  have "py_in (lower ''Drop Out'') (lower e)"
    using assms(2) by (rule py_in_lower)
  then have enrollment: "py_in ''drop out'' (field row ''Enrollment status'')"
    using assms(1) by (simp add: field_def dict_get_def lower_Drop_Out)
  have single: "field row ''Whether the HH is headed by a single parent'' = ''yes''"
    using assms(3) by (simp add: field_def dict_get_def lower_Yes)
  have score: "calc_child_marriage_risk row = (35, [''Out of school'', ''Orphan/Single parent''])"
    unfolding calc_child_marriage_risk_def Let_def
    using enrollment single assms(4-9) by (simp add: if_then_def hit_def)
  then show ?thesis
    by (simp add: get_risk_level_def)
qed

theorem marriage_example_witness:
  "calc_child_marriage_risk example_girl = (35, [''Out of school'', ''Orphan/Single parent''])
   \<and> get_risk_level (fst (calc_child_marriage_risk example_girl)) = ''Medium''"
proof (rule marriage_example [where e = "''Drop Out''"])
  show "example_girl ''Enrollment status'' = Some (PStr ''Drop Out'')"
    by (simp add: example_girl_def)
  show "py_in ''Drop Out'' ''Drop Out''"
    by simp
  show "example_girl ''Whether the HH is headed by a single parent'' = Some (PStr ''Yes'')"
    by (simp add: example_girl_def)
qed (simp_all add: field_example_girl)

text \<open>
  The year key of a record that has no key Year: the pass takes the field Periodicity in
  its place, and the text Unknown when that key is missing too. The year key is the text of
  the value, so that a record with the string "2023" and a record with the number 2023
  fall into the same year group of their region and of their district.
\<close>

lemma year_key_fallback:
  "(\<forall>r v. r ''Year'' = None \<and> r ''Periodicity'' = Some v \<longrightarrow> year_of r = py_str v)
   \<and> (\<forall>r. r ''Year'' = None \<and> r ''Periodicity'' = None \<longrightarrow> year_of r = ''Unknown'')
   \<and> (\<forall>a b. a ''Year'' = Some (PStr ''2023'') \<and> b ''Year'' = Some (PInt 2023) \<longrightarrow>
        year_of a = ''2023'' \<and> year_of b = ''2023'')
   \<and> (\<forall>a b. a ''Year'' = Some (PStr ''2023'') \<and> b ''Year'' = Some (PInt 2023)
          \<and> region_of a = region_of b \<longrightarrow>
        (\<exists>c. regionYearData (aggregate [a, b]) = [(region_of a, [(''2023'', c)])]
           \<and> count c = 2))
   \<and> (\<forall>a b. a ''Year'' = Some (PStr ''2023'') \<and> b ''Year'' = Some (PInt 2023)
          \<and> district_of a = district_of b \<longrightarrow>
        (\<exists>c. districtYearData (aggregate [a, b]) = [(district_of a, [(''2023'', c)])]
           \<and> count c = 2))"
proof -
  have y: "year_of a = ''2023'' \<and> year_of b = ''2023''"
    if "a ''Year'' = Some (PStr ''2023'')" and "b ''Year'' = Some (PInt 2023)" for a b
    using that by (simp add: year_of_def dict_get_def str_int_2023)
  have two: "\<exists>c. tabulate2 kf year_of mf ff [a, b] = [(kf a, [(''2023'', c)])] \<and> count c = 2"
    if "year_of a = ''2023'' \<and> year_of b = ''2023''" and "kf a = kf b"
    for a b :: pyrecord and kf mf ff
    using that by (simp add: tabulate2_def bump2_def bump_def zero_counter_def)
  show ?thesis
    unfolding regionYearData_aggregate districtYearData_aggregate
    using y two by (simp add: year_of_def dict_get_def)
qed

lemma year_key_fallback_witness:
  "year_of [''Periodicity'' \<mapsto> PStr ''Annual''] = ''Annual''
   \<and> year_of Map.empty = ''Unknown''
   \<and> year_of [''Year'' \<mapsto> PStr ''2023''] = ''2023''
   \<and> year_of [''Year'' \<mapsto> PInt 2023] = ''2023''
   \<and> (\<exists>c. regionYearData (aggregate [[''Year'' \<mapsto> PStr ''2023''], [''Year'' \<mapsto> PInt 2023]])
          = [(''Unknown'', [(''2023'', c)])] \<and> count c = 2)
   \<and> (\<exists>c. districtYearData (aggregate [[''Year'' \<mapsto> PStr ''2023''], [''Year'' \<mapsto> PInt 2023]])
          = [(''Unknown'', [(''2023'', c)])] \<and> count c = 2)"
proof -
  let ?a = "[''Year'' \<mapsto> PStr ''2023'']" and ?b = "[''Year'' \<mapsto> PInt 2023]"
  note all = year_key_fallback
  have p: "[''Periodicity'' \<mapsto> PStr ''Annual''] ''Year'' = None
      \<and> [''Periodicity'' \<mapsto> PStr ''Annual''] ''Periodicity'' = Some (PStr ''Annual'')"
    and e: "(Map.empty :: pyrecord) ''Year'' = None \<and> (Map.empty :: pyrecord) ''Periodicity'' = None"
    and ab: "?a ''Year'' = Some (PStr ''2023'') \<and> ?b ''Year'' = Some (PInt 2023)"
    and r: "?a ''Year'' = Some (PStr ''2023'') \<and> ?b ''Year'' = Some (PInt 2023)
      \<and> region_of ?a = region_of ?b"
    and d: "?a ''Year'' = Some (PStr ''2023'') \<and> ?b ''Year'' = Some (PInt 2023)
      \<and> district_of ?a = district_of ?b"
    and u: "region_of ?a = ''Unknown''" "district_of ?a = ''Unknown''"
    by (simp_all add: record_eval char_eval)
  note all [THEN conjunct1, rule_format, of "[''Periodicity'' \<mapsto> PStr ''Annual'']"
      "PStr ''Annual''", OF p]
    all [THEN conjunct2, THEN conjunct1, rule_format, of "Map.empty :: pyrecord", OF e]
    all [THEN conjunct2, THEN conjunct2, THEN conjunct1, rule_format, of ?a ?b, OF ab]
    all [THEN conjunct2, THEN conjunct2, THEN conjunct2, THEN conjunct1, rule_format,
      of ?a ?b, OF r]
    all [THEN conjunct2, THEN conjunct2, THEN conjunct2, THEN conjunct2, rule_format,
      of ?a ?b, OF d]
  then show ?thesis
    by (simp add: u)
qed

text \<open>A year that is present and null is not absent: its key is the text None.\<close>

lemma year_of_null: "r ''Year'' = Some PNone \<Longrightarrow> year_of r = ''None''"
  by (simp add: year_of_def dict_get_def)

text \<open>
  C5: a record whose year field is absent falls back to the field Periodicity before the
  default Unknown, and the year key is always a string. The pass does so when the key
  Year is missing. When the key is there with the value null, as the exported records have
  it for an empty cell, the pass takes neither Periodicity nor Unknown: the year key is
  the text None, although the same record's null region and district become Unknown.
\<close>

theorem year_null_not_fallback:
  "year_of [''Year'' \<mapsto> PNone, ''Periodicity'' \<mapsto> PStr ''2023''] = ''None''
   \<and> year_of [''Periodicity'' \<mapsto> PStr ''2023''] = ''2023''
   \<and> region_of [''Region Name'' \<mapsto> PNone] = ''Unknown''
   \<and> regionYearData (aggregate [[''Year'' \<mapsto> PNone, ''Periodicity'' \<mapsto> PStr ''2023'']])
       = [(''Unknown'', [(''None'', \<lparr>count = 1, boys = 0, girls = 0\<rparr>)])]
   \<and> districtYearData (aggregate [[''Year'' \<mapsto> PNone, ''Periodicity'' \<mapsto> PStr ''2023'']])
       = [(''Unknown'', [(''None'', \<lparr>count = 1, boys = 0, girls = 0\<rparr>)])]"
  by (simp add: table_eval record_eval char_eval)

subsection \<open>One record's effect on its groups\<close>

lemma getitem_bump:
  "getitem zero_counter (bump k m f t) k = tally m f (getitem zero_counter t k)"
  by (simp add: getitem_def map_of_bump)

lemma getitem_bump2:
  "getitem zero_counter (getitem [] (bump2 k y m f t) k) y
     = tally m f (getitem zero_counter (getitem [] t k) y)"
  by (simp add: getitem_def map_of_bump2 map_of_bump)

lemma tally_spec:
  "v \<noteq> PNone \<Longrightarrow> dict_get r ''Gender'' (dict_get r ''Gender_x'' (PStr '''')) = v \<Longrightarrow>
     tally (is_male r) (is_female r) c = spec_tally (lower (py_str v)) c"
  by (auto simp: tally_def spec_tally_def is_male_def is_female_def gender_of_def
      safe_lower_def Let_def)

lemma tally_spec_none:
  "dict_get r ''Gender'' (dict_get r ''Gender_x'' (PStr '''')) = PNone \<Longrightarrow>
     tally (is_male r) (is_female r) c = spec_tally '''' c"
  by (simp add: tally_def spec_tally_def is_male_def is_female_def gender_of_def
      safe_lower_def Let_def)

lemma sorted_districts_example:
  "sorted_districts (regionDistrictMap (aggregate example_district_records))
     = [(''North'', [''Agra'', ''Mathura''])]"
  by code_simp

lemma put_aggregations_other:
  "k \<notin> {''byRegion'', ''byDistrict'', ''regionYearData'', ''districtYearData'',
      ''regionDistrictMap''} \<Longrightarrow> map_of (put_aggregations s d) k = map_of d k"
  by (simp add: map_of_put_aggregations)

lemma put_aggregations_keys:
  "map_of (put_aggregations s d) ''byRegion'' = Some (table_json (byRegion s))"
  "map_of (put_aggregations s d) ''byDistrict'' = Some (table_json (byDistrict s))"
  "map_of (put_aggregations s d) ''regionYearData'' = Some (table2_json (regionYearData s))"
  "map_of (put_aggregations s d) ''districtYearData'' = Some (table2_json (districtYearData s))"
  "map_of (put_aggregations s d) ''regionDistrictMap'' = Some (relmap_json (regionDistrictMap s))"
  by (simp_all add: map_of_put_aggregations)

lemma save_present:
  "save_aggregations s (Holds (JObj d)) = (Inr (), Holds (JObj (put_aggregations s d)))"
  "save_aggregations s Absent = (Inl FileNotFoundError, Absent)"
  "save_aggregations s Unparsable = (Inl JSONDecodeError, Unparsable)"
  by (simp_all add: save_aggregations_def)

text \<open>
  C4, as the code has it: the gender field is lowercased and not trimmed. The record counts
  as a boy exactly when the lowercased text is one of male, m, boy, as a girl exactly when
  it is one of female, f, girl, and any other value, the empty text and a null among them,
  adds to count only. Every table of the pass counts the record this way.
\<close>

theorem gender_classification:
  "(\<forall>r v c. v \<noteq> PNone \<and> dict_get r ''Gender'' (dict_get r ''Gender_x'' (PStr '''')) = v \<longrightarrow>
      tally (is_male r) (is_female r) c = spec_tally (lower (py_str v)) c)
   \<and> (\<forall>r c. dict_get r ''Gender'' (dict_get r ''Gender_x'' (PStr '''')) = PNone \<longrightarrow>
      tally (is_male r) (is_female r) c = spec_tally '''' c)
   \<and> (\<forall>g c. g \<notin> {''male'', ''m'', ''boy''} \<and> g \<notin> {''female'', ''f'', ''girl''} \<longrightarrow>
      spec_tally g c = c\<lparr>count := count c + 1\<rparr>)
   \<and> getitem zero_counter (byRegion (step s r)) (region_of r)
       = tally (is_male r) (is_female r) (getitem zero_counter (byRegion s) (region_of r))
   \<and> getitem zero_counter (byDistrict (step s r)) (district_of r)
       = tally (is_male r) (is_female r) (getitem zero_counter (byDistrict s) (district_of r))
   \<and> getitem zero_counter (getitem [] (regionYearData (step s r)) (region_of r)) (year_of r)
       = tally (is_male r) (is_female r)
           (getitem zero_counter (getitem [] (regionYearData s) (region_of r)) (year_of r))
   \<and> getitem zero_counter (getitem [] (districtYearData (step s r)) (district_of r)) (year_of r)
       = tally (is_male r) (is_female r)
           (getitem zero_counter (getitem [] (districtYearData s) (district_of r)) (year_of r))"
proof (intro conjI allI impI)
  fix r v c
  assume "v \<noteq> PNone \<and> dict_get r ''Gender'' (dict_get r ''Gender_x'' (PStr '''')) = v"
  then show "tally (is_male r) (is_female r) c = spec_tally (lower (py_str v)) c"
    by (intro tally_spec) simp_all
next
  fix r c
  assume "dict_get r ''Gender'' (dict_get r ''Gender_x'' (PStr '''')) = PNone"
  then show "tally (is_male r) (is_female r) c = spec_tally '''' c"
    by (rule tally_spec_none)
next
  fix g c
  assume "g \<notin> {''male'', ''m'', ''boy''} \<and> g \<notin> {''female'', ''f'', ''girl''}"
  then show "spec_tally g c = c\<lparr>count := count c + 1\<rparr>"
    by (simp add: spec_tally_def)
qed (simp_all add: step_def Let_def getitem_bump getitem_bump2)

theorem gender_classification_witness:
  "tally (is_male [''Gender'' \<mapsto> PStr ''Male '']) (is_female [''Gender'' \<mapsto> PStr ''Male ''])
       zero_counter = spec_tally ''male '' zero_counter
   \<and> tally (is_male [''Gender'' \<mapsto> PStr ''Male'']) (is_female [''Gender'' \<mapsto> PStr ''Male''])
       zero_counter = spec_tally ''male'' zero_counter
   \<and> tally (is_male [''Gender'' \<mapsto> PNone]) (is_female [''Gender'' \<mapsto> PNone])
       zero_counter = spec_tally '''' zero_counter
   \<and> spec_tally ''male '' zero_counter = \<lparr>count = 1, boys = 0, girls = 0\<rparr>
   \<and> spec_tally ''male'' zero_counter = \<lparr>count = 1, boys = 1, girls = 0\<rparr>"
proof -
  note all = gender_classification [of init_agg Map.empty]
  have a: "PStr ''Male '' \<noteq> PNone
      \<and> dict_get [''Gender'' \<mapsto> PStr ''Male ''] ''Gender''
          (dict_get [''Gender'' \<mapsto> PStr ''Male ''] ''Gender_x'' (PStr '''')) = PStr ''Male ''"
    and b: "PStr ''Male'' \<noteq> PNone
      \<and> dict_get [''Gender'' \<mapsto> PStr ''Male''] ''Gender''
          (dict_get [''Gender'' \<mapsto> PStr ''Male''] ''Gender_x'' (PStr '''')) = PStr ''Male''"
    and n: "dict_get [''Gender'' \<mapsto> PNone] ''Gender''
          (dict_get [''Gender'' \<mapsto> PNone] ''Gender_x'' (PStr '''')) = PNone"
    and o: "''male '' \<notin> {''male'', ''m'', ''boy''} \<and> ''male '' \<notin> {''female'', ''f'', ''girl''}"
    by (simp_all add: dict_get_def)
  have l: "lower ''Male '' = ''male ''" "lower ''Male'' = ''male''"
    by (simp_all add: char_eval)
  note all [THEN conjunct1, rule_format, of "PStr ''Male ''" "[''Gender'' \<mapsto> PStr ''Male '']"
      zero_counter, OF a]
    all [THEN conjunct1, rule_format, of "PStr ''Male''" "[''Gender'' \<mapsto> PStr ''Male'']"
      zero_counter, OF b]
    all [THEN conjunct2, THEN conjunct1, rule_format, of "[''Gender'' \<mapsto> PNone]"
      zero_counter, OF n]
    all [THEN conjunct2, THEN conjunct2, THEN conjunct1, rule_format, of "''male ''"
      zero_counter, OF o]
  then show ?thesis
    by (simp add: l) (simp add: spec_tally_def zero_counter_def)
qed

text \<open>
  C4, as the specification has it, fails: lowercased and trimmed, the value "Male " is
  male, yet the pass does not count the record as a boy.
\<close>

theorem gender_trim_counterexample:
  "strip (lower (py_str (PStr ''Male ''))) \<in> {''male'', ''m'', ''boy''}
   \<and> \<not> is_male [''Gender'' \<mapsto> PStr ''Male '']
   \<and> byRegion (aggregate [[''Gender'' \<mapsto> PStr ''Male '']])
       = [(''Unknown'', \<lparr>count = 1, boys = 0, girls = 0\<rparr>)]"
  by (simp add: table_eval record_eval char_eval)

text \<open>
  C6: the relation from regions to districts does not depend on the order of the records:
  for a sequence of records and any reordering of it the final map from each region to its
  set of districts is the same, and so is what is written out. A district belongs to
  a region exactly when some record resolves to this region and this district, both other
  than Unknown. Each region's districts are written as a sorted list without duplicates.
\<close>

theorem relation_map_order_independent:
  assumes "mset rs = mset rs'"
  shows "map_of (regionDistrictMap (aggregate rs)) = map_of (regionDistrictMap (aggregate rs'))
    \<and> map_of (sorted_districts (regionDistrictMap (aggregate rs)))
        = map_of (sorted_districts (regionDistrictMap (aggregate rs')))
    \<and> (\<forall>reg d. (\<exists>S. map_of (regionDistrictMap (aggregate rs)) reg = Some S \<and> d \<in> S)
        = (\<exists>r \<in> set rs. region_of r = reg \<and> district_of r = d
             \<and> reg \<noteq> ''Unknown'' \<and> d \<noteq> ''Unknown''))
    \<and> (\<forall>reg ds. map_of (sorted_districts (regionDistrictMap (aggregate rs))) reg = Some ds \<longrightarrow>
        sorted ds \<and> distinct ds
        \<and> map_of (regionDistrictMap (aggregate rs)) reg = Some (set ds))"
proof -
  from assms have "set rs = set rs'"
    by (rule mset_eq_setD)
  then have same: "map_of (regionDistrictMap (aggregate rs))
      = map_of (regionDistrictMap (aggregate rs'))"
    unfolding regionDistrictMap_aggregate by (rule relate_set_cong)
  then have written: "map_of (sorted_districts (regionDistrictMap (aggregate rs)))
      = map_of (sorted_districts (regionDistrictMap (aggregate rs')))"
    by (simp add: sorted_districts_def map_of_map)
  have member: "(\<exists>S. map_of (regionDistrictMap (aggregate rs)) reg = Some S \<and> d \<in> S)
      = (\<exists>r \<in> set rs. region_of r = reg \<and> district_of r = d
           \<and> reg \<noteq> ''Unknown'' \<and> d \<noteq> ''Unknown'')" for reg d
    unfolding regionDistrictMap_aggregate by (rule relate_member)
  have sorted: "sorted ds \<and> distinct ds \<and> map_of (regionDistrictMap (aggregate rs)) reg = Some (set ds)"
    if "map_of (sorted_districts (regionDistrictMap (aggregate rs))) reg = Some ds" for reg ds
  proof -
    from that obtain S where S: "map_of (regionDistrictMap (aggregate rs)) reg = Some S"
      and ds: "ds = sorted_list_of_set S"
      by (auto simp: map_of_sorted_districts)
    from S have "finite S"
      unfolding regionDistrictMap_aggregate by (rule relate_finite)
    with S ds show ?thesis
      by simp
  qed
  from same written member sorted show ?thesis
    by blast
qed

theorem relation_map_order_independent_witness:
  "map_of (regionDistrictMap (aggregate example_district_records))
     = map_of (regionDistrictMap (aggregate (rev example_district_records)))
   \<and> map_of (sorted_districts (regionDistrictMap (aggregate example_district_records)))
     = map_of (sorted_districts (regionDistrictMap (aggregate (rev example_district_records))))
   \<and> map_of (sorted_districts (regionDistrictMap (aggregate example_district_records))) ''North''
     = Some [''Agra'', ''Mathura'']
   \<and> sorted [''Agra'', ''Mathura''] \<and> distinct [''Agra'', ''Mathura'']
   \<and> map_of (regionDistrictMap (aggregate example_district_records)) ''North''
     = Some (set [''Agra'', ''Mathura''])"
proof -
  have m: "mset example_district_records = mset (rev example_district_records)"
    by simp
  note all = relation_map_order_independent [OF m]
  have w: "map_of (sorted_districts (regionDistrictMap (aggregate example_district_records)))
      ''North'' = Some [''Agra'', ''Mathura'']"
    by (simp add: sorted_districts_example)
  note all [THEN conjunct2, THEN conjunct2, THEN conjunct2, rule_format, OF w]
  with all w show ?thesis
    by blast
qed

text \<open>
  C7: when the result is written into an existing JSON document, the five keys of the
  aggregation (\<open>byRegion\<close>, \<open>byDistrict\<close>, \<open>regionYearData\<close>, \<open>districtYearData\<close>,
  \<open>regionDistrictMap\<close>) hold the new tables and every other top-level key keeps its
  value. When the document is absent or cannot be parsed the step fails before any
  write and the file is as it was.
\<close>

theorem save_keeps_other_keys:
  "(\<forall>d. \<exists>d'. save_aggregations s (Holds (JObj d)) = (Inr (), Holds (JObj d'))
      \<and> (\<forall>k. k \<notin> {''byRegion'', ''byDistrict'', ''regionYearData'', ''districtYearData'',
                  ''regionDistrictMap''} \<longrightarrow> map_of d' k = map_of d k)
      \<and> map_of d' ''byRegion'' = Some (table_json (byRegion s))
      \<and> map_of d' ''byDistrict'' = Some (table_json (byDistrict s))
      \<and> map_of d' ''regionYearData'' = Some (table2_json (regionYearData s))
      \<and> map_of d' ''districtYearData'' = Some (table2_json (districtYearData s))
      \<and> map_of d' ''regionDistrictMap'' = Some (relmap_json (regionDistrictMap s)))
   \<and> save_aggregations s Absent = (Inl FileNotFoundError, Absent)
   \<and> save_aggregations s Unparsable = (Inl JSONDecodeError, Unparsable)"
proof (intro conjI allI)
  fix d
  show "\<exists>d'. save_aggregations s (Holds (JObj d)) = (Inr (), Holds (JObj d'))
      \<and> (\<forall>k. k \<notin> {''byRegion'', ''byDistrict'', ''regionYearData'', ''districtYearData'',
                  ''regionDistrictMap''} \<longrightarrow> map_of d' k = map_of d k)
      \<and> map_of d' ''byRegion'' = Some (table_json (byRegion s))
      \<and> map_of d' ''byDistrict'' = Some (table_json (byDistrict s))
      \<and> map_of d' ''regionYearData'' = Some (table2_json (regionYearData s))
      \<and> map_of d' ''districtYearData'' = Some (table2_json (districtYearData s))
      \<and> map_of d' ''regionDistrictMap'' = Some (relmap_json (regionDistrictMap s))"
    by (rule exI [of _ "put_aggregations s d"])
       (intro conjI allI impI save_present put_aggregations_keys put_aggregations_other)
qed (rule save_present)+

theorem save_keeps_other_keys_witness:
  "\<exists>d'. save_aggregations (aggregate example_records) (Holds (JObj example_document))
       = (Inr (), Holds (JObj d'))
     \<and> map_of d' ''totalRecords'' = Some (JInt 3)
     \<and> map_of d' ''byRegion'' = Some (table_json (byRegion (aggregate example_records)))"
proof -
  from save_keeps_other_keys [of "aggregate example_records", THEN conjunct1, rule_format,
      of example_document]
  obtain d' where saved: "save_aggregations (aggregate example_records)
        (Holds (JObj example_document)) = (Inr (), Holds (JObj d'))"
    and frame: "\<forall>k. k \<notin> {''byRegion'', ''byDistrict'', ''regionYearData'', ''districtYearData'',
        ''regionDistrictMap''} \<longrightarrow> map_of d' k = map_of example_document k"
    and region: "map_of d' ''byRegion'' = Some (table_json (byRegion (aggregate example_records)))"
    by (elim exE conjE)
  have other: "''totalRecords'' \<notin> {''byRegion'', ''byDistrict'', ''regionYearData'',
      ''districtYearData'', ''regionDistrictMap''}"
    by simp
  have "map_of d' ''totalRecords'' = map_of example_document ''totalRecords''"
    by (rule frame [rule_format, OF other])
  then have "map_of d' ''totalRecords'' = Some (JInt 3)"
    by (simp add: example_document_def)
  with saved region show ?thesis
    by (intro exI [of _ d'] conjI)
qed

text \<open>
  C9: the repair replaces the tokens NaN and Infinity by null. The token -Infinity is
  not replaced by null: the second substitution has already turned its word Infinity into
  null, the minus sign stays, and the third substitution finds nothing left to match.
\<close>

theorem fix_content_minus_infinity:
  "fix_content ''[NaN, Infinity]'' = ''[null, null]''
   \<and> fix_content ''[-Infinity]'' = ''[-null]''
   \<and> fix_json_file loads ''[-Infinity]'' = (''[-null]'', loads ''[-null]'')"
  by (simp add: fix_json_file_def fix_content_def match_here_def boundary_def first_char_def
      char_eval Let_def)

end
